theory Spec2Isabelle
  imports Main "HOL-Library.Word"
begin

section \<open>The arena allocator of mavalloc.c\<close>

text \<open>
  The allocator keeps one pool of bytes and a ledger: an array of \<open>MAX_ALLOCS\<close> nodes that are
  threaded into a doubly linked list through the integer fields \<open>next\<close> and \<open>previous\<close>
  (the value -1 ends the list). The model follows the C text statement by statement.
  \<^item> \<open>size_t\<close> and pointers are 64-bit words (an LP64 platform: \<open>int\<close> has 32 bits,
    \<open>long\<close> has 64); the C \<open>int\<close> indices are mathematical integers, since every one of
    them is compared with the array bounds before it can grow.
  \<^item> The ledger is a function from indices to nodes. Every subscript is checked against
    \<open>0 \<le> i < MAX_ALLOCS\<close>; a subscript outside the array is undefined behaviour in C and
    is the outcome \<open>Fault i\<close> here.
  \<^item> The \<open>while\<close> and \<open>for\<close> loops walk links that the program itself has written, so
    they need not end: each is a partial function into \<open>option\<close>, where \<open>None\<close> is a loop
    that runs forever.
  \<^item> The two function-local \<open>static\<close> variables are fields of the state.
\<close>

subsection \<open>Data\<close>

definition MAX_ALLOCS :: int where
  "MAX_ALLOCS = 10000"

definition INT_MAX :: "32 word" where
  "INT_MAX = 2147483647"

datatype TYPE_t = P | H

text \<open>
  Modelled from the spec: the enumeration \<open>ALGORITHM\<close> is declared in mavalloc.h, which is
  not among the sources; the four names are the cases of the \<open>switch\<close> in
  \<open>mavalloc_alloc\<close>.
\<close>

datatype ALGORITHM = FIRST_FIT | NEXT_FIT | BEST_FIT | WORST_FIT

record Node =
  size_f :: "64 word"
  type_f :: TYPE_t
  arena :: "64 word"
  next_f :: int
  previous :: int

record state =
  pool :: "64 word"
  pool_size :: "64 word"
  alloc_algorithm :: ALGORITHM
  ledger_top :: int
  ledger :: "int \<Rightarrow> Node"
  tb_ptr :: int
  last_ptr :: int

text \<open>
  \<open>tb_ptr\<close> is the \<open>static int ptr\<close> of \<open>traverse_back\<close> and \<open>last_ptr\<close> the
  \<open>static int last_ptr\<close> of \<open>next_fit\<close>; both start at 0. The null pointer is the word 0.
\<close>

definition NULL :: "64 word" where
  "NULL = 0"

datatype 'a outcome = Ok 'a | Fault int

definition in_bounds :: "int \<Rightarrow> bool" where
  "in_bounds i \<longleftrightarrow> 0 \<le> i \<and> i < MAX_ALLOCS"

definition and_then :: "'a outcome option \<Rightarrow> ('a \<Rightarrow> 'b outcome option) \<Rightarrow> 'b outcome option" where
  "and_then m f = (case m of None \<Rightarrow> None | Some (Fault i) \<Rightarrow> Some (Fault i) | Some (Ok x) \<Rightarrow> f x)"

text \<open>
  Modelled from the spec: the macro \<open>ALIGN4\<close> is defined in mavalloc.h, which is not among
  the sources. The spec says that sizes are rounded up to a 4-byte boundary; on \<open>size_t\<close>
  the rounding is done modulo \<open>2 ^ 64\<close>.
\<close>

definition ALIGN4 :: "64 word \<Rightarrow> 64 word" where
  "ALIGN4 s = push_bit 2 (drop_bit 2 (s - 1)) + 4"

text \<open>One assignment to one field of one ledger entry.\<close>

definition set_size :: "(int \<Rightarrow> Node) \<Rightarrow> int \<Rightarrow> 64 word \<Rightarrow> (int \<Rightarrow> Node)" where
  "set_size L i v = L(i := (L i)\<lparr>size_f := v\<rparr>)"

definition set_type :: "(int \<Rightarrow> Node) \<Rightarrow> int \<Rightarrow> TYPE_t \<Rightarrow> (int \<Rightarrow> Node)" where
  "set_type L i v = L(i := (L i)\<lparr>type_f := v\<rparr>)"

definition set_arena :: "(int \<Rightarrow> Node) \<Rightarrow> int \<Rightarrow> 64 word \<Rightarrow> (int \<Rightarrow> Node)" where
  "set_arena L i v = L(i := (L i)\<lparr>arena := v\<rparr>)"

definition set_next :: "(int \<Rightarrow> Node) \<Rightarrow> int \<Rightarrow> int \<Rightarrow> (int \<Rightarrow> Node)" where
  "set_next L i v = L(i := (L i)\<lparr>next_f := v\<rparr>)"

definition set_previous :: "(int \<Rightarrow> Node) \<Rightarrow> int \<Rightarrow> int \<Rightarrow> (int \<Rightarrow> Node)" where
  "set_previous L i v = L(i := (L i)\<lparr>previous := v\<rparr>)"

subsection \<open>Head lookup\<close>

partial_function (option) tb_loop :: "(int \<Rightarrow> Node) \<Rightarrow> int \<Rightarrow> int outcome option" where
  "tb_loop L p =
     (if \<not> in_bounds p then Some (Fault p)
      else if previous (L p) \<noteq> - 1 then tb_loop L (previous (L p))
      else Some (Ok p))"

definition traverse_back :: "state \<Rightarrow> (state \<times> int) outcome option" where
  "traverse_back s =
     (if \<not> in_bounds (tb_ptr s) then Some (Fault (tb_ptr s))
      else and_then (tb_loop (ledger s) (if next_f (ledger s (tb_ptr s)) = - 1 then 0 else tb_ptr s))
             (\<lambda>h. Some (Ok (s\<lparr>tb_ptr := h\<rparr>, h))))"

subsection \<open>Initialisation\<close>

fun init_loop :: "nat \<Rightarrow> (int \<Rightarrow> Node) \<Rightarrow> (int \<Rightarrow> Node)" where
  "init_loop 0 L = L"
| "init_loop (Suc n) L =
     (let L1 = init_loop n L;
          i = int (Suc n);
          L2 = set_arena L1 i NULL;
          L3 = set_size L2 i 0;
          L4 = set_previous L3 i (- 1)
      in set_next L4 i (- 1))"

text \<open>
  \<open>mavalloc_init size algorithm p\<close>: \<open>p\<close> is what \<open>malloc\<close> returns for the aligned size
  (\<open>NULL\<close> when the reservation fails). The result is the new state and the C return value.
  The parameter is a \<open>size_t\<close>, so the test \<open>size < 0\<close> compares an unsigned word with 0.
\<close>

definition mavalloc_init :: "64 word \<Rightarrow> ALGORITHM \<Rightarrow> 64 word \<Rightarrow> state \<Rightarrow> state \<times> int" where
  "mavalloc_init sz algorithm p s =
     (let s1 = s\<lparr>alloc_algorithm := algorithm\<rparr> in
      if sz < 0 then (s1, - 1)
      else
        let s2 = s1\<lparr>pool_size := ALIGN4 sz, pool := p\<rparr> in
        if p = NULL then (s2, - 1)
        else
          let L1 = set_arena (ledger s2) 0 (pool s2);
              L2 = set_size L1 0 (pool_size s2);
              L3 = set_previous L2 0 (- 1);
              L4 = set_next L3 0 (- 1);
              L5 = set_type L4 0 H
          in (s2\<lparr>ledger_top := 0, ledger := init_loop (nat (MAX_ALLOCS - 1)) L5\<rparr>, 0))"

subsection \<open>Placement strategies\<close>

partial_function (option) fit_loop :: "(int \<Rightarrow> Node) \<Rightarrow> 64 word \<Rightarrow> int \<Rightarrow> int outcome option" where
  "fit_loop L sz p =
     (if p = - 1 then Some (Ok p)
      else if \<not> in_bounds p then Some (Fault p)
      else if size_f (L p) < sz \<or> type_f (L p) = P then fit_loop L sz (next_f (L p))
      else Some (Ok p))"

definition first_fit :: "state \<Rightarrow> 64 word \<Rightarrow> (state \<times> int) outcome option" where
  "first_fit s sz =
     and_then (traverse_back s) (\<lambda>(s1, h).
     and_then (fit_loop (ledger s1) sz h) (\<lambda>p. Some (Ok (s1, p))))"

definition next_fit :: "state \<Rightarrow> 64 word \<Rightarrow> (state \<times> int) outcome option" where
  "next_fit s sz =
     and_then (fit_loop (ledger s) sz (last_ptr s)) (\<lambda>p.
       if p = - 1
       then and_then (first_fit s sz) (\<lambda>(s1, q). Some (Ok (s1\<lparr>last_ptr := q\<rparr>, q)))
       else Some (Ok (s\<lparr>last_ptr := p\<rparr>, p)))"

text \<open>
  In \<open>worst_fit\<close> and \<open>best_fit\<close> the running extreme is a C \<open>int\<close>: the assignment from
  \<open>size_t\<close> keeps the low 32 bits, and the comparison is made in \<open>long\<close>, that is between
  the size read as a signed 64-bit number and the sign-extended \<open>int\<close>.
\<close>

partial_function (option) worst_loop ::
  "(int \<Rightarrow> Node) \<Rightarrow> 64 word \<Rightarrow> int \<Rightarrow> int \<Rightarrow> 32 word \<Rightarrow> int outcome option" where
  "worst_loop L sz p max_hole_idx max_hole_size =
     (if p = - 1 then Some (Ok max_hole_idx)
      else if \<not> in_bounds p then Some (Fault p)
      else if type_f (L p) = H \<and> sz \<le> size_f (L p) \<and> sint max_hole_size < sint (size_f (L p))
      then worst_loop L sz (next_f (L p)) p (ucast (size_f (L p)))
      else worst_loop L sz (next_f (L p)) max_hole_idx max_hole_size)"

definition worst_fit :: "state \<Rightarrow> 64 word \<Rightarrow> (state \<times> int) outcome option" where
  "worst_fit s sz =
     and_then (traverse_back s) (\<lambda>(s1, h).
     and_then (worst_loop (ledger s1) sz h (- 1) (- 1)) (\<lambda>p. Some (Ok (s1, p))))"

partial_function (option) best_loop ::
  "(int \<Rightarrow> Node) \<Rightarrow> 64 word \<Rightarrow> int \<Rightarrow> int \<Rightarrow> 32 word \<Rightarrow> int outcome option" where
  "best_loop L sz p min_hole_idx min_hole_size =
     (if p = - 1 then Some (Ok min_hole_idx)
      else if \<not> in_bounds p then Some (Fault p)
      else if type_f (L p) = H \<and> sz \<le> size_f (L p) \<and> sint (size_f (L p)) < sint min_hole_size
      then best_loop L sz (next_f (L p)) p (ucast (size_f (L p)))
      else best_loop L sz (next_f (L p)) min_hole_idx min_hole_size)"

definition best_fit :: "state \<Rightarrow> 64 word \<Rightarrow> (state \<times> int) outcome option" where
  "best_fit s sz =
     and_then (traverse_back s) (\<lambda>(s1, h).
     and_then (best_loop (ledger s1) sz h (- 1) INT_MAX) (\<lambda>p. Some (Ok (s1, p))))"

text \<open>The \<open>switch\<close> of \<open>mavalloc_alloc\<close> on the configured algorithm.\<close>

definition select_hole :: "state \<Rightarrow> 64 word \<Rightarrow> (state \<times> int) outcome option" where
  "select_hole s sz =
     (case alloc_algorithm s of
        FIRST_FIT \<Rightarrow> first_fit s sz
      | NEXT_FIT \<Rightarrow> next_fit s sz
      | WORST_FIT \<Rightarrow> worst_fit s sz
      | BEST_FIT \<Rightarrow> best_fit s sz)"

subsection \<open>Allocation\<close>

text \<open>
  The statements after the search, in the order of the source. \<open>split_hole L idx t sz\<close> is
  the block from \<open>ledger[ledger_top].size = size\<close> to the last pointer assignment, with
  \<open>t\<close> the incremented \<open>ledger_top\<close>.
\<close>

definition split_hole :: "(int \<Rightarrow> Node) \<Rightarrow> int \<Rightarrow> int \<Rightarrow> 64 word \<Rightarrow> (int \<Rightarrow> Node) outcome" where
  "split_hole L idx t sz =
     (let L1 = set_size L t sz;
          L2 = set_type L1 t P;
          L3 = set_previous L2 t (previous (L2 idx))
      in if previous (L3 idx) \<noteq> - 1 \<and> \<not> in_bounds (previous (L3 idx)) then Fault (previous (L3 idx))
         else
           let L4 = (if previous (L3 idx) \<noteq> - 1 then set_next L3 (previous (L3 idx)) t else L3);
               L5 = set_next L4 t idx;
               L6 = set_previous L5 idx t;
               L7 = set_size L6 idx (size_f (L6 idx) - sz);
               L8 = set_arena L7 t (arena (L7 idx));
               L9 = set_arena L8 idx (arena (L8 idx) + sz)
           in Ok L9)"

definition mavalloc_alloc :: "state \<Rightarrow> 64 word \<Rightarrow> (state \<times> 64 word) outcome option" where
  "mavalloc_alloc s size0 =
     (let sz = ALIGN4 size0 in
      and_then (select_hole s sz) (\<lambda>(s1, idx).
        if idx = - 1 then Some (Ok (s1, NULL))
        else if \<not> in_bounds idx then Some (Fault idx)
        else if size_f (ledger s1 idx) = sz
        then Some (Ok (s1\<lparr>ledger := set_type (ledger s1) idx P\<rparr>, arena (ledger s1 idx)))
        else
          let t = ledger_top s1 + 1 in
          if \<not> in_bounds t then Some (Fault t)
          else (case split_hole (ledger s1) idx t sz of
                  Fault i \<Rightarrow> Some (Fault i)
                | Ok L9 \<Rightarrow> Some (Ok (s1\<lparr>ledger_top := t, ledger := L9\<rparr>, arena (L9 t))))))"

subsection \<open>Release\<close>

partial_function (option) find_loop :: "(int \<Rightarrow> Node) \<Rightarrow> 64 word \<Rightarrow> int \<Rightarrow> int outcome option" where
  "find_loop L ptr i =
     (if i = - 1 then Some (Ok i)
      else if \<not> in_bounds i then Some (Fault i)
      else if arena (L i) \<noteq> ptr then find_loop L ptr (next_f (L i))
      else Some (Ok i))"

text \<open>
  The two statements that splice the entry after \<open>i\<close> out of the list:
  \<open>ledger[i].next = ledger[ledger[i].next].next; ledger[ledger[i].next].previous = i\<close>.
  Neither subscript is guarded in the source.
\<close>

definition splice_next :: "(int \<Rightarrow> Node) \<Rightarrow> int \<Rightarrow> (int \<Rightarrow> Node) outcome" where
  "splice_next L i =
     (if \<not> in_bounds (next_f (L i)) then Fault (next_f (L i))
      else
        let L1 = set_next L i (next_f (L (next_f (L i)))) in
        if \<not> in_bounds (next_f (L1 i)) then Fault (next_f (L1 i))
        else Ok (set_previous L1 (next_f (L1 i)) i))"

text \<open>
  The backward step of \<open>mavalloc_free\<close>; the result is the ledger, \<open>ledger_top\<close> and the
  index that the forward step continues with.
\<close>

definition coalesce_backward :: "(int \<Rightarrow> Node) \<Rightarrow> int \<Rightarrow> int \<Rightarrow> ((int \<Rightarrow> Node) \<times> int \<times> int) outcome" where
  "coalesce_backward L tp i =
     (if previous (L i) = - 1 then Ok (L, tp, i)
      else if \<not> in_bounds (previous (L i)) then Fault (previous (L i))
      else if type_f (L (previous (L i))) \<noteq> H then Ok (L, tp, i)
      else
        let L1 = set_size L (previous (L i)) (size_f (L (previous (L i))) + size_f (L i));
            top1 = (if i = tp then tp - 1 else tp);
            i1 = previous (L1 i)
        in if \<not> in_bounds i1 then Fault i1
           else (case splice_next L1 i1 of Fault j \<Rightarrow> Fault j | Ok L2 \<Rightarrow> Ok (L2, top1, i1)))"

definition coalesce_forward :: "(int \<Rightarrow> Node) \<Rightarrow> int \<Rightarrow> (int \<Rightarrow> Node) outcome" where
  "coalesce_forward L i =
     (if next_f (L i) = - 1 then Ok L
      else if \<not> in_bounds (next_f (L i)) then Fault (next_f (L i))
      else if type_f (L (next_f (L i))) \<noteq> H then Ok L
      else splice_next (set_size L i (size_f (L i) + size_f (L (next_f (L i))))) i)"

text \<open>The body of \<open>if(i != -1)\<close>: reclassify, then coalesce backwards, then forwards.\<close>

definition free_at :: "state \<Rightarrow> int \<Rightarrow> state outcome" where
  "free_at s1 i =
     (case coalesce_backward (set_type (ledger s1) i H) (ledger_top s1) i of
        Fault j \<Rightarrow> Fault j
      | Ok (L1, top1, i1) \<Rightarrow>
          (case coalesce_forward L1 i1 of
             Fault j \<Rightarrow> Fault j
           | Ok L2 \<Rightarrow> Ok (s1\<lparr>ledger_top := top1, ledger := L2\<rparr>)))"

definition mavalloc_free :: "state \<Rightarrow> 64 word \<Rightarrow> state outcome option" where
  "mavalloc_free s ptr =
     (if ptr = NULL then Some (Ok s)
      else
        and_then (traverse_back s) (\<lambda>(s1, h).
        and_then (find_loop (ledger s1) ptr h) (\<lambda>i.
          if i = - 1 then Some (Ok s1) else Some (free_at s1 i))))"

section \<open>Calls, runs and the properties of the ledger\<close>

text \<open>
  The state of the program before the first call: static storage is zero, \<open>ledger_top\<close> is
  initialised to -1. (The first enumerator of \<open>ALGORITHM\<close> is not known; \<open>mavalloc_init\<close>
  overwrites the field before it is read.)
\<close>

definition node :: "64 word \<Rightarrow> TYPE_t \<Rightarrow> 64 word \<Rightarrow> int \<Rightarrow> int \<Rightarrow> Node" where
  "node sz t a n p = \<lparr>size_f = sz, type_f = t, arena = a, next_f = n, previous = p\<rparr>"

definition boot :: state where
  "boot = \<lparr>pool = NULL, pool_size = 0, alloc_algorithm = FIRST_FIT, ledger_top = - 1,
     ledger = (\<lambda>_. node 0 P NULL 0 0), tb_ptr = 0, last_ptr = 0\<rparr>"

text \<open>The ledger that \<open>mavalloc_init\<close> leaves when it is the first call.\<close>

definition fresh :: "64 word \<Rightarrow> 64 word \<Rightarrow> int \<Rightarrow> Node" where
  "fresh p sz = (\<lambda>i. if i = 0 then node sz H p (- 1) (- 1)
                      else if in_bounds i then node 0 P NULL (- 1) (- 1)
                      else node 0 P NULL 0 0)"

datatype call = Init "64 word" ALGORITHM "64 word" | Alloc "64 word" | Free "64 word"

fun step :: "state \<Rightarrow> call \<Rightarrow> state outcome option" where
  "step s (Init sz algorithm p) = Some (Ok (fst (mavalloc_init sz algorithm p s)))"
| "step s (Alloc sz) = and_then (mavalloc_alloc s sz) (\<lambda>(s1, h). Some (Ok s1))"
| "step s (Free ptr) = mavalloc_free s ptr"

fun run :: "state \<Rightarrow> call list \<Rightarrow> state outcome option" where
  "run s [] = Some (Ok s)"
| "run s (c # cs) = and_then (step s c) (\<lambda>s1. run s1 cs)"

text \<open>
  The entries of the list that starts at \<open>p\<close>, in the order of the \<open>next\<close> links. The ledger
  has \<open>MAX_ALLOCS\<close> entries, so a list that is longer than that visits an entry twice and
  never reaches -1: the result is then \<open>None\<close>, as it is when a link leaves the array.
\<close>

fun walk :: "nat \<Rightarrow> (int \<Rightarrow> Node) \<Rightarrow> int \<Rightarrow> int list option" where
  "walk n L p =
     (if p = - 1 then Some []
      else if n = 0 \<or> \<not> in_bounds p then None
      else map_option (Cons p) (walk (n - 1) L (next_f (L p))))"

declare walk.simps [simp del]

definition live_list :: "state \<Rightarrow> int \<Rightarrow> int list option" where
  "live_list s h = walk (nat MAX_ALLOCS) (ledger s) h"

text \<open>The entries in use (index at most \<open>ledger_top\<close>) whose \<open>previous\<close> link is -1.\<close>

definition heads :: "state \<Rightarrow> int list" where
  "heads s = filter (\<lambda>h. previous (ledger s h) = - 1) [0..ledger_top s]"

text \<open>Offset in the pool, size and kind of an entry.\<close>

definition block :: "state \<Rightarrow> int \<Rightarrow> nat \<times> nat \<times> TYPE_t" where
  "block s i = (unat (arena (ledger s i) - pool s), unat (size_f (ledger s i)), type_f (ledger s i))"

definition blocks :: "state \<Rightarrow> (nat \<times> nat \<times> TYPE_t) list option" where
  "blocks s = (case heads s of [h] \<Rightarrow> map_option (map (block s)) (live_list s h) | _ \<Rightarrow> None)"

text \<open>
  \<open>tiling bs a e\<close>: the blocks \<open>bs\<close>, in order, start at \<open>a\<close>, each starts where the one
  before ends, and the last ends at \<open>e\<close>.
\<close>

fun tiling :: "(nat \<times> nat \<times> TYPE_t) list \<Rightarrow> nat \<Rightarrow> nat \<Rightarrow> bool" where
  "tiling [] a e = (a = e)"
| "tiling ((off, n, t) # bs) a e = (off = a \<and> tiling bs (a + n) e)"

definition partition_inv :: "state \<Rightarrow> bool" where
  "partition_inv s = (case blocks s of None \<Rightarrow> False | Some bs \<Rightarrow> tiling bs 0 (unat (pool_size s)))"

fun adjacent_holes :: "(nat \<times> nat \<times> TYPE_t) list \<Rightarrow> bool" where
  "adjacent_holes ((o1, n1, t1) # (o2, n2, t2) # bs) = (t1 = H \<and> t2 = H \<or> adjacent_holes ((o2, n2, t2) # bs))"
| "adjacent_holes bs = False"

definition no_adjacent_holes :: "state \<Rightarrow> bool" where
  "no_adjacent_holes s = (case blocks s of None \<Rightarrow> False | Some bs \<Rightarrow> \<not> adjacent_holes bs)"

subsection \<open>States of five runs\<close>

text \<open>
  The states below are those that the calls named in the lemmas \<open>nf_step\<close>, \<open>ff_step\<close>,
  \<open>bf_init\<close>, \<open>tb_step\<close> and \<open>sp_step\<close> produce one after the other, with the pool at
  address 4096: \<open>nf\<close>, \<open>tb\<close> and \<open>sp\<close> are runs with next-fit, \<open>ff\<close> with first-fit and \<open>bf\<close> with best-fit.
\<close>

definition nf_s0 :: state where
  "nf_s0 =
     \<lparr>pool = 4096, pool_size = 16, alloc_algorithm = NEXT_FIT, ledger_top = 0,
       ledger = fresh 4096 16,
       tb_ptr = 0, last_ptr = 0\<rparr>"

definition nf_s1 :: state where
  "nf_s1 =
     \<lparr>pool = 4096, pool_size = 16, alloc_algorithm = NEXT_FIT, ledger_top = 1,
       ledger = (fresh 4096 16)(0 := node 12 H 4100 (- 1) 1,
         1 := node 4 P 4096 0 (- 1)),
       tb_ptr = 0, last_ptr = 0\<rparr>"

definition nf_s2 :: state where
  "nf_s2 =
     \<lparr>pool = 4096, pool_size = 16, alloc_algorithm = NEXT_FIT, ledger_top = 2,
       ledger = (fresh 4096 16)(0 := node 4 H 4108 (- 1) 2,
         1 := node 4 P 4096 2 (- 1),
         2 := node 8 P 4100 0 1),
       tb_ptr = 0, last_ptr = 0\<rparr>"

definition nf_s3 :: state where
  "nf_s3 =
     \<lparr>pool = 4096, pool_size = 16, alloc_algorithm = NEXT_FIT, ledger_top = 2,
       ledger = (fresh 4096 16)(0 := node 4 P 4108 (- 1) 2,
         1 := node 4 P 4096 2 (- 1),
         2 := node 8 P 4100 0 1),
       tb_ptr = 0, last_ptr = 0\<rparr>"

definition nf_s4 :: state where
  "nf_s4 =
     \<lparr>pool = 4096, pool_size = 16, alloc_algorithm = NEXT_FIT, ledger_top = 2,
       ledger = (fresh 4096 16)(0 := node 4 P 4108 (- 1) 2,
         1 := node 4 H 4096 2 (- 1),
         2 := node 8 P 4100 0 1),
       tb_ptr = 1, last_ptr = 0\<rparr>"

definition nf_s5 :: state where
  "nf_s5 =
     \<lparr>pool = 4096, pool_size = 16, alloc_algorithm = NEXT_FIT, ledger_top = 1,
       ledger = (fresh 4096 16)(0 := node 4 P 4108 (- 1) 1,
         1 := node 12 H 4096 0 (- 1),
         2 := node 8 H 4100 0 1),
       tb_ptr = 1, last_ptr = 0\<rparr>"

definition nf_s6 :: state where
  "nf_s6 =
     \<lparr>pool = 4096, pool_size = 16, alloc_algorithm = NEXT_FIT, ledger_top = 2,
       ledger = (fresh 4096 16)(0 := node 4 P 4108 (- 1) 1,
         1 := node 8 H 4100 0 2,
         2 := node 4 P 4096 1 (- 1)),
       tb_ptr = 1, last_ptr = 1\<rparr>"

definition nf_s7 :: state where
  "nf_s7 =
     \<lparr>pool = 4096, pool_size = 16, alloc_algorithm = NEXT_FIT, ledger_top = 2,
       ledger = (fresh 4096 16)(0 := node 4 P 4108 (- 1) 2,
         1 := node 8 H 4100 0 2,
         2 := node 12 H 4096 0 (- 1)),
       tb_ptr = 2, last_ptr = 1\<rparr>"

definition nf_s8 :: state where
  "nf_s8 =
     \<lparr>pool = 4096, pool_size = 16, alloc_algorithm = NEXT_FIT, ledger_top = 3,
       ledger = (fresh 4096 16)(0 := node 4 P 4108 (- 1) 2,
         1 := node 4 H 4104 0 3,
         2 := node 12 H 4096 3 (- 1),
         3 := node 4 P 4100 1 2),
       tb_ptr = 2, last_ptr = 1\<rparr>"

definition nf_s9 :: state where
  "nf_s9 =
     \<lparr>pool = 4096, pool_size = 16, alloc_algorithm = NEXT_FIT, ledger_top = 3,
       ledger = (fresh 4096 16)(0 := node 4 H 4108 (- 1) 2,
         1 := node 4 H 4104 0 2,
         2 := node 20 H 4096 0 (- 1),
         3 := node 4 P 4100 1 2),
       tb_ptr = 2, last_ptr = 1\<rparr>"

definition nf_r9 :: state where
  "nf_r9 =
     \<lparr>pool = 4096, pool_size = 16, alloc_algorithm = NEXT_FIT, ledger_top = 2,
       ledger = (fresh 4096 16)(0 := node 4 P 4108 (- 1) 2,
         1 := node 4 H 4104 0 2,
         2 := node 20 H 4096 0 (- 1),
         3 := node 4 H 4100 1 2),
       tb_ptr = 2, last_ptr = 1\<rparr>"

definition ff_s0 :: state where
  "ff_s0 =
     \<lparr>pool = 4096, pool_size = 8, alloc_algorithm = FIRST_FIT, ledger_top = 0,
       ledger = fresh 4096 8,
       tb_ptr = 0, last_ptr = 0\<rparr>"

definition ff_s1 :: state where
  "ff_s1 =
     \<lparr>pool = 4096, pool_size = 8, alloc_algorithm = FIRST_FIT, ledger_top = 1,
       ledger = (fresh 4096 8)(0 := node 4 H 4100 (- 1) 1,
         1 := node 4 P 4096 0 (- 1)),
       tb_ptr = 0, last_ptr = 0\<rparr>"

definition bf_s0 :: state where
  "bf_s0 =
     \<lparr>pool = 4096, pool_size = 2147483648, alloc_algorithm = BEST_FIT, ledger_top = 0,
       ledger = fresh 4096 2147483648,
       tb_ptr = 0, last_ptr = 0\<rparr>"

definition tb_s0 :: state where
  "tb_s0 =
     \<lparr>pool = 4096, pool_size = 24, alloc_algorithm = NEXT_FIT, ledger_top = 0,
       ledger = fresh 4096 24,
       tb_ptr = 0, last_ptr = 0\<rparr>"

definition tb_s1 :: state where
  "tb_s1 =
     \<lparr>pool = 4096, pool_size = 24, alloc_algorithm = NEXT_FIT, ledger_top = 1,
       ledger = (fresh 4096 24)(0 := node 20 H 4100 (- 1) 1,
         1 := node 4 P 4096 0 (- 1)),
       tb_ptr = 0, last_ptr = 0\<rparr>"

definition tb_s2 :: state where
  "tb_s2 =
     \<lparr>pool = 4096, pool_size = 24, alloc_algorithm = NEXT_FIT, ledger_top = 2,
       ledger = (fresh 4096 24)(0 := node 16 H 4104 (- 1) 2,
         1 := node 4 P 4096 2 (- 1),
         2 := node 4 P 4100 0 1),
       tb_ptr = 0, last_ptr = 0\<rparr>"

definition tb_s3 :: state where
  "tb_s3 =
     \<lparr>pool = 4096, pool_size = 24, alloc_algorithm = NEXT_FIT, ledger_top = 3,
       ledger = (fresh 4096 24)(0 := node 8 H 4112 (- 1) 3,
         1 := node 4 P 4096 2 (- 1),
         2 := node 4 P 4100 3 1,
         3 := node 8 P 4104 0 2),
       tb_ptr = 0, last_ptr = 0\<rparr>"

definition tb_s4 :: state where
  "tb_s4 =
     \<lparr>pool = 4096, pool_size = 24, alloc_algorithm = NEXT_FIT, ledger_top = 4,
       ledger = (fresh 4096 24)(0 := node 4 H 4116 (- 1) 4,
         1 := node 4 P 4096 2 (- 1),
         2 := node 4 P 4100 3 1,
         3 := node 8 P 4104 4 2,
         4 := node 4 P 4112 0 3),
       tb_ptr = 0, last_ptr = 0\<rparr>"

definition tb_s5 :: state where
  "tb_s5 =
     \<lparr>pool = 4096, pool_size = 24, alloc_algorithm = NEXT_FIT, ledger_top = 4,
       ledger = (fresh 4096 24)(0 := node 4 H 4116 (- 1) 4,
         1 := node 4 P 4096 2 (- 1),
         2 := node 4 P 4100 3 1,
         3 := node 8 H 4104 4 2,
         4 := node 4 P 4112 0 3),
       tb_ptr = 1, last_ptr = 0\<rparr>"

definition tb_s6 :: state where
  "tb_s6 =
     \<lparr>pool = 4096, pool_size = 24, alloc_algorithm = NEXT_FIT, ledger_top = 4,
       ledger = (fresh 4096 24)(0 := node 4 H 4116 (- 1) 4,
         1 := node 4 P 4096 2 (- 1),
         2 := node 4 P 4100 3 1,
         3 := node 8 P 4104 4 2,
         4 := node 4 P 4112 0 3),
       tb_ptr = 1, last_ptr = 3\<rparr>"

definition tb_s7 :: state where
  "tb_s7 =
     \<lparr>pool = 4096, pool_size = 24, alloc_algorithm = NEXT_FIT, ledger_top = 4,
       ledger = (fresh 4096 24)(0 := node 4 H 4116 (- 1) 4,
         1 := node 4 P 4096 2 (- 1),
         2 := node 4 H 4100 3 1,
         3 := node 8 P 4104 4 2,
         4 := node 4 P 4112 0 3),
       tb_ptr = 1, last_ptr = 3\<rparr>"

definition tb_s8 :: state where
  "tb_s8 =
     \<lparr>pool = 4096, pool_size = 24, alloc_algorithm = NEXT_FIT, ledger_top = 4,
       ledger = (fresh 4096 24)(0 := node 4 H 4116 (- 1) 4,
         1 := node 4 P 4096 2 (- 1),
         2 := node 12 H 4100 4 1,
         3 := node 8 H 4104 4 2,
         4 := node 4 P 4112 0 2),
       tb_ptr = 1, last_ptr = 3\<rparr>"

definition tb_s9 :: state where
  "tb_s9 =
     \<lparr>pool = 4096, pool_size = 24, alloc_algorithm = NEXT_FIT, ledger_top = 5,
       ledger = (fresh 4096 24)(0 := node 4 H 4116 (- 1) 4,
         1 := node 4 P 4096 2 (- 1),
         2 := node 12 H 4100 5 1,
         3 := node 4 H 4108 4 5,
         4 := node 4 P 4112 0 2,
         5 := node 4 P 4104 3 2),
       tb_ptr = 1, last_ptr = 3\<rparr>"

definition tb_s10 :: state where
  "tb_s10 =
     \<lparr>pool = 4096, pool_size = 24, alloc_algorithm = NEXT_FIT, ledger_top = 5,
       ledger = (fresh 4096 24)(0 := node 4 H 4116 (- 1) 4,
         1 := node 4 P 4096 2 (- 1),
         2 := node 12 H 4100 5 1,
         3 := node 4 P 4108 4 5,
         4 := node 4 P 4112 0 2,
         5 := node 4 P 4104 3 2),
       tb_ptr = 1, last_ptr = 3\<rparr>"

definition tb_s11 :: state where
  "tb_s11 =
     \<lparr>pool = 4096, pool_size = 24, alloc_algorithm = NEXT_FIT, ledger_top = 5,
       ledger = (fresh 4096 24)(0 := node 4 H 4116 (- 1) 4,
         1 := node 16 H 4096 5 (- 1),
         2 := node 12 H 4100 5 1,
         3 := node 4 P 4108 4 5,
         4 := node 4 P 4112 0 2,
         5 := node 4 P 4104 3 1),
       tb_ptr = 1, last_ptr = 3\<rparr>"

definition tb_s12 :: state where
  "tb_s12 =
     \<lparr>pool = 4096, pool_size = 24, alloc_algorithm = NEXT_FIT, ledger_top = 4,
       ledger = (fresh 4096 24)(0 := node 4 H 4116 (- 1) 4,
         1 := node 20 H 4096 3 (- 1),
         2 := node 12 H 4100 5 1,
         3 := node 4 P 4108 4 1,
         4 := node 4 P 4112 0 2,
         5 := node 4 H 4104 3 1),
       tb_ptr = 1, last_ptr = 3\<rparr>"

definition tb_s13 :: state where
  "tb_s13 =
     \<lparr>pool = 4096, pool_size = 24, alloc_algorithm = NEXT_FIT, ledger_top = 3,
       ledger = (fresh 4096 24)(0 := node 4 H 4116 (- 1) 4,
         1 := node 20 H 4096 3 (- 1),
         2 := node 16 H 4100 3 1,
         3 := node 4 P 4108 4 2,
         4 := node 4 H 4112 0 2,
         5 := node 4 H 4104 3 1),
       tb_ptr = 1, last_ptr = 3\<rparr>"

definition tb_s14 :: state where
  "tb_s14 =
     \<lparr>pool = 4096, pool_size = 24, alloc_algorithm = NEXT_FIT, ledger_top = 4,
       ledger = (fresh 4096 24)(0 := node 4 H 4116 (- 1) 4,
         1 := node 12 H 4104 3 4,
         2 := node 16 H 4100 3 1,
         3 := node 4 P 4108 4 2,
         4 := node 8 P 4096 1 (- 1),
         5 := node 4 H 4104 3 1),
       tb_ptr = 1, last_ptr = 1\<rparr>"

definition tb_s15 :: state where
  "tb_s15 =
     \<lparr>pool = 4096, pool_size = 24, alloc_algorithm = NEXT_FIT, ledger_top = 4,
       ledger = (fresh 4096 24)(0 := node 4 H 4116 (- 1) 4,
         1 := node 12 H 4104 3 4,
         2 := node 20 H 4100 4 1,
         3 := node 4 H 4108 4 2,
         4 := node 8 P 4096 1 2,
         5 := node 4 H 4104 3 1),
       tb_ptr = 4, last_ptr = 1\<rparr>"

definition sp_s0 :: state where
  "sp_s0 =
     \<lparr>pool = 4096, pool_size = 24, alloc_algorithm = NEXT_FIT, ledger_top = 0,
       ledger = fresh 4096 24,
       tb_ptr = 0, last_ptr = 0\<rparr>"

definition sp_s1 :: state where
  "sp_s1 =
     \<lparr>pool = 4096, pool_size = 24, alloc_algorithm = NEXT_FIT, ledger_top = 1,
       ledger = (fresh 4096 24)(0 := node 20 H 4100 (- 1) 1,
         1 := node 4 P 4096 0 (- 1)),
       tb_ptr = 0, last_ptr = 0\<rparr>"

definition sp_s2 :: state where
  "sp_s2 =
     \<lparr>pool = 4096, pool_size = 24, alloc_algorithm = NEXT_FIT, ledger_top = 2,
       ledger = (fresh 4096 24)(0 := node 12 H 4108 (- 1) 2,
         1 := node 4 P 4096 2 (- 1),
         2 := node 8 P 4100 0 1),
       tb_ptr = 0, last_ptr = 0\<rparr>"

definition sp_s3 :: state where
  "sp_s3 =
     \<lparr>pool = 4096, pool_size = 24, alloc_algorithm = NEXT_FIT, ledger_top = 2,
       ledger = (fresh 4096 24)(0 := node 12 P 4108 (- 1) 2,
         1 := node 4 P 4096 2 (- 1),
         2 := node 8 P 4100 0 1),
       tb_ptr = 0, last_ptr = 0\<rparr>"

definition sp_s4 :: state where
  "sp_s4 =
     \<lparr>pool = 4096, pool_size = 24, alloc_algorithm = NEXT_FIT, ledger_top = 2,
       ledger = (fresh 4096 24)(0 := node 12 P 4108 (- 1) 2,
         1 := node 4 P 4096 2 (- 1),
         2 := node 8 H 4100 0 1),
       tb_ptr = 1, last_ptr = 0\<rparr>"

definition sp_s5 :: state where
  "sp_s5 =
     \<lparr>pool = 4096, pool_size = 24, alloc_algorithm = NEXT_FIT, ledger_top = 2,
       ledger = (fresh 4096 24)(0 := node 12 P 4108 (- 1) 2,
         1 := node 4 P 4096 2 (- 1),
         2 := node 8 P 4100 0 1),
       tb_ptr = 1, last_ptr = 2\<rparr>"

definition sp_s6 :: state where
  "sp_s6 =
     \<lparr>pool = 4096, pool_size = 24, alloc_algorithm = NEXT_FIT, ledger_top = 2,
       ledger = (fresh 4096 24)(0 := node 12 P 4108 (- 1) 2,
         1 := node 4 H 4096 2 (- 1),
         2 := node 8 P 4100 0 1),
       tb_ptr = 1, last_ptr = 2\<rparr>"

definition sp_s7 :: state where
  "sp_s7 =
     \<lparr>pool = 4096, pool_size = 24, alloc_algorithm = NEXT_FIT, ledger_top = 1,
       ledger = (fresh 4096 24)(0 := node 12 P 4108 (- 1) 1,
         1 := node 12 H 4096 0 (- 1),
         2 := node 8 H 4100 0 1),
       tb_ptr = 1, last_ptr = 2\<rparr>"

definition sp_s8 :: state where
  "sp_s8 =
     \<lparr>pool = 4096, pool_size = 24, alloc_algorithm = NEXT_FIT, ledger_top = 2,
       ledger = (fresh 4096 24)(0 := node 12 P 4108 (- 1) 1,
         1 := node 12 H 4096 2 (- 1),
         2 := node 0 P 4104 2 2),
       tb_ptr = 1, last_ptr = 2\<rparr>"

section \<open>Evaluating the operations\<close>

lemma init_loop_at:
  "init_loop n L i =
     (if 1 \<le> i \<and> i \<le> int n
      then (L i)\<lparr>arena := NULL, size_f := 0, previous := - 1, next_f := - 1\<rparr> else L i)"
  by (induction n) (auto simp: Let_def set_arena_def set_size_def set_previous_def set_next_def)

lemma init_boot:
  "p \<noteq> NULL \<Longrightarrow> mavalloc_init sz algorithm p boot =
     (\<lparr>pool = p, pool_size = ALIGN4 sz, alloc_algorithm = algorithm, ledger_top = 0,
       ledger = fresh p (ALIGN4 sz), tb_ptr = 0, last_ptr = 0\<rparr>, 0)"
  by (auto simp: mavalloc_init_def Let_def boot_def fresh_def node_def fun_eq_iff init_loop_at
        set_arena_def set_size_def set_previous_def set_next_def set_type_def in_bounds_def
        MAX_ALLOCS_def)

lemma tb_loop_out: "\<not> in_bounds p \<Longrightarrow> tb_loop L p = Some (Fault p)"
  by (subst tb_loop.simps) simp

lemma tb_loop_stop: "in_bounds p \<Longrightarrow> previous (L p) = - 1 \<Longrightarrow> tb_loop L p = Some (Ok p)"
  by (subst tb_loop.simps) simp

lemma tb_loop_step:
  "in_bounds p \<Longrightarrow> previous (L p) \<noteq> - 1 \<Longrightarrow> tb_loop L p = tb_loop L (previous (L p))"
  by (subst tb_loop.simps) simp

lemma fit_loop_end: "fit_loop L sz (- 1) = Some (Ok (- 1))"
  by (subst fit_loop.simps) simp

lemma fit_loop_stop:
  "in_bounds p \<Longrightarrow> \<not> size_f (L p) < sz \<Longrightarrow> type_f (L p) = H \<Longrightarrow> fit_loop L sz p = Some (Ok p)"
  by (subst fit_loop.simps) (auto simp: in_bounds_def)

lemma fit_loop_step:
  "in_bounds p \<Longrightarrow> size_f (L p) < sz \<or> type_f (L p) = P \<Longrightarrow>
   fit_loop L sz p = fit_loop L sz (next_f (L p))"
  by (subst fit_loop.simps) (auto simp: in_bounds_def)

lemma find_loop_end: "find_loop L ptr (- 1) = Some (Ok (- 1))"
  by (subst find_loop.simps) simp

lemma find_loop_stop: "in_bounds p \<Longrightarrow> arena (L p) = ptr \<Longrightarrow> find_loop L ptr p = Some (Ok p)"
  by (subst find_loop.simps) (auto simp: in_bounds_def)

lemma find_loop_step:
  "in_bounds p \<Longrightarrow> arena (L p) \<noteq> ptr \<Longrightarrow> find_loop L ptr p = find_loop L ptr (next_f (L p))"
  by (subst find_loop.simps) (auto simp: in_bounds_def)

lemma best_loop_end: "best_loop L sz (- 1) i m = Some (Ok i)"
  by (subst best_loop.simps) simp

lemma best_loop_step:
  "in_bounds p \<Longrightarrow> best_loop L sz p i m =
     (if type_f (L p) = H \<and> sz \<le> size_f (L p) \<and> sint (size_f (L p)) < sint m
      then best_loop L sz (next_f (L p)) p (ucast (size_f (L p)))
      else best_loop L sz (next_f (L p)) i m)"
  by (subst best_loop.simps) (auto simp: in_bounds_def)

lemma walk_end: "walk n L (- 1) = Some []"
  by (simp add: walk.simps)

lemma walk_step:
  "p \<noteq> - 1 \<Longrightarrow> 0 < n \<Longrightarrow> in_bounds p \<Longrightarrow>
   walk n L p = map_option (Cons p) (walk (n - 1) L (next_f (L p)))"
  by (subst walk.simps) simp

lemmas loop_steps = tb_loop_out tb_loop_stop tb_loop_step fit_loop_end fit_loop_stop fit_loop_step
  find_loop_end find_loop_stop find_loop_step best_loop_end best_loop_step

lemmas unfold_ops = traverse_back_def first_fit_def next_fit_def best_fit_def select_hole_def
  mavalloc_alloc_def mavalloc_free_def free_at_def coalesce_backward_def coalesce_forward_def
  splice_next_def split_hole_def and_then_def Let_def set_arena_def set_size_def set_previous_def
  set_next_def set_type_def in_bounds_def MAX_ALLOCS_def NULL_def fresh_def node_def

lemmas unfold_props = partition_inv_def no_adjacent_holes_def blocks_def heads_def live_list_def
  block_def walk_end walk_step upto_rec1 in_bounds_def MAX_ALLOCS_def fresh_def node_def

lemma aligned:
  "ALIGN4 4 = 4" "ALIGN4 8 = 8" "ALIGN4 12 = 12" "ALIGN4 16 = 16" "ALIGN4 24 = 24"
  "ALIGN4 2147483648 = 2147483648" "ALIGN4 (- 1) = 0"
  by (simp_all add: ALIGN4_def push_bit_eq_mult mask_eq_exp_minus_1)

subsection \<open>The five runs, call by call\<close>

lemma nf_init: "mavalloc_init 16 NEXT_FIT 4096 boot = (nf_s0, 0)"
  by (simp add: init_boot NULL_def aligned nf_s0_def)

lemma nf_step1: "mavalloc_alloc nf_s0 4 = Some (Ok (nf_s1, 4096))"
  by (simp add: nf_s0_def nf_s1_def aligned unfold_ops loop_steps fun_eq_iff)

lemma nf_step2: "mavalloc_alloc nf_s1 8 = Some (Ok (nf_s2, 4100))"
  by (simp add: nf_s1_def nf_s2_def aligned unfold_ops loop_steps fun_eq_iff)

lemma nf_step3: "mavalloc_alloc nf_s2 4 = Some (Ok (nf_s3, 4108))"
  by (simp add: nf_s2_def nf_s3_def aligned unfold_ops loop_steps fun_eq_iff)

lemma nf_step4: "mavalloc_free nf_s3 4096 = Some (Ok nf_s4)"
  by (simp add: nf_s3_def nf_s4_def aligned unfold_ops loop_steps fun_eq_iff)

lemma nf_step5: "mavalloc_free nf_s4 4100 = Some (Ok nf_s5)"
  by (simp add: nf_s4_def nf_s5_def aligned unfold_ops loop_steps fun_eq_iff)

lemma nf_step6: "mavalloc_alloc nf_s5 4 = Some (Ok (nf_s6, 4096))"
  by (simp add: nf_s5_def nf_s6_def aligned unfold_ops loop_steps fun_eq_iff)

lemma nf_step7: "mavalloc_free nf_s6 4096 = Some (Ok nf_s7)"
  by (simp add: nf_s6_def nf_s7_def aligned unfold_ops loop_steps fun_eq_iff)

lemma nf_step8: "mavalloc_alloc nf_s7 4 = Some (Ok (nf_s8, 4100))"
  by (simp add: nf_s7_def nf_s8_def aligned unfold_ops loop_steps fun_eq_iff)

lemma nf_step9: "mavalloc_free nf_s8 4108 = Some (Ok nf_s9)"
  by (simp add: nf_s8_def nf_s9_def aligned unfold_ops loop_steps fun_eq_iff)

lemma nf_back9: "mavalloc_free nf_s8 4100 = Some (Ok nf_r9)"
  by (simp add: nf_s8_def nf_r9_def aligned unfold_ops loop_steps fun_eq_iff)

lemma ff_init: "mavalloc_init 8 FIRST_FIT 4096 boot = (ff_s0, 0)"
  by (simp add: init_boot NULL_def aligned ff_s0_def)

lemma ff_step1: "mavalloc_alloc ff_s0 4 = Some (Ok (ff_s1, 4096))"
  by (simp add: ff_s0_def ff_s1_def aligned unfold_ops loop_steps fun_eq_iff)

lemma bf_init: "mavalloc_init 2147483648 BEST_FIT 4096 boot = (bf_s0, 0)"
  by (simp add: init_boot NULL_def aligned bf_s0_def)

lemma tb_init: "mavalloc_init 24 NEXT_FIT 4096 boot = (tb_s0, 0)"
  by (simp add: init_boot NULL_def aligned tb_s0_def)

lemma tb_step1: "mavalloc_alloc tb_s0 4 = Some (Ok (tb_s1, 4096))"
  by (simp add: tb_s0_def tb_s1_def aligned unfold_ops loop_steps fun_eq_iff)

lemma tb_step2: "mavalloc_alloc tb_s1 4 = Some (Ok (tb_s2, 4100))"
  by (simp add: tb_s1_def tb_s2_def aligned unfold_ops loop_steps fun_eq_iff)

lemma tb_step3: "mavalloc_alloc tb_s2 8 = Some (Ok (tb_s3, 4104))"
  by (simp add: tb_s2_def tb_s3_def aligned unfold_ops loop_steps fun_eq_iff)

lemma tb_step4: "mavalloc_alloc tb_s3 4 = Some (Ok (tb_s4, 4112))"
  by (simp add: tb_s3_def tb_s4_def aligned unfold_ops loop_steps fun_eq_iff)

lemma tb_step5: "mavalloc_free tb_s4 4104 = Some (Ok tb_s5)"
  by (simp add: tb_s4_def tb_s5_def aligned unfold_ops loop_steps fun_eq_iff)

lemma tb_step6: "mavalloc_alloc tb_s5 8 = Some (Ok (tb_s6, 4104))"
  by (simp add: tb_s5_def tb_s6_def aligned unfold_ops loop_steps fun_eq_iff)

lemma tb_step7: "mavalloc_free tb_s6 4100 = Some (Ok tb_s7)"
  by (simp add: tb_s6_def tb_s7_def aligned unfold_ops loop_steps fun_eq_iff)

lemma tb_step8: "mavalloc_free tb_s7 4104 = Some (Ok tb_s8)"
  by (simp add: tb_s7_def tb_s8_def aligned unfold_ops loop_steps fun_eq_iff)

lemma tb_step9: "mavalloc_alloc tb_s8 4 = Some (Ok (tb_s9, 4104))"
  by (simp add: tb_s8_def tb_s9_def aligned unfold_ops loop_steps fun_eq_iff)

lemma tb_step10: "mavalloc_alloc tb_s9 4 = Some (Ok (tb_s10, 4108))"
  by (simp add: tb_s9_def tb_s10_def aligned unfold_ops loop_steps fun_eq_iff)

lemma tb_step11: "mavalloc_free tb_s10 4096 = Some (Ok tb_s11)"
  by (simp add: tb_s10_def tb_s11_def aligned unfold_ops loop_steps fun_eq_iff)

lemma tb_step12: "mavalloc_free tb_s11 4104 = Some (Ok tb_s12)"
  by (simp add: tb_s11_def tb_s12_def aligned unfold_ops loop_steps fun_eq_iff)

lemma tb_step13: "mavalloc_free tb_s12 4112 = Some (Ok tb_s13)"
  by (simp add: tb_s12_def tb_s13_def aligned unfold_ops loop_steps fun_eq_iff)

lemma tb_step14: "mavalloc_alloc tb_s13 8 = Some (Ok (tb_s14, 4096))"
  by (simp add: tb_s13_def tb_s14_def aligned unfold_ops loop_steps fun_eq_iff)

lemma tb_step15: "mavalloc_free tb_s14 4108 = Some (Ok tb_s15)"
  by (simp add: tb_s14_def tb_s15_def aligned unfold_ops loop_steps fun_eq_iff)

lemma sp_init: "mavalloc_init 24 NEXT_FIT 4096 boot = (sp_s0, 0)"
  by (simp add: init_boot NULL_def aligned sp_s0_def)

lemma sp_step1: "mavalloc_alloc sp_s0 4 = Some (Ok (sp_s1, 4096))"
  by (simp add: sp_s0_def sp_s1_def aligned unfold_ops loop_steps fun_eq_iff)

lemma sp_step2: "mavalloc_alloc sp_s1 8 = Some (Ok (sp_s2, 4100))"
  by (simp add: sp_s1_def sp_s2_def aligned unfold_ops loop_steps fun_eq_iff)

lemma sp_step3: "mavalloc_alloc sp_s2 12 = Some (Ok (sp_s3, 4108))"
  by (simp add: sp_s2_def sp_s3_def aligned unfold_ops loop_steps fun_eq_iff)

lemma sp_step4: "mavalloc_free sp_s3 4100 = Some (Ok sp_s4)"
  by (simp add: sp_s3_def sp_s4_def aligned unfold_ops loop_steps fun_eq_iff)

lemma sp_step5: "mavalloc_alloc sp_s4 8 = Some (Ok (sp_s5, 4100))"
  by (simp add: sp_s4_def sp_s5_def aligned unfold_ops loop_steps fun_eq_iff)

lemma sp_step6: "mavalloc_free sp_s5 4096 = Some (Ok sp_s6)"
  by (simp add: sp_s5_def sp_s6_def aligned unfold_ops loop_steps fun_eq_iff)

lemma sp_step7: "mavalloc_free sp_s6 4100 = Some (Ok sp_s7)"
  by (simp add: sp_s6_def sp_s7_def aligned unfold_ops loop_steps fun_eq_iff)

lemma sp_step8: "mavalloc_alloc sp_s7 4 = Some (Ok (sp_s8, 4104))"
  by (simp add: sp_s7_def sp_s8_def aligned unfold_ops loop_steps fun_eq_iff)

section \<open>What the searches leave unchanged\<close>

lemma traverse_back_state:
  "traverse_back s = Some (Ok (s1, h)) \<Longrightarrow> s1 = s\<lparr>tb_ptr := h\<rparr>"
  by (auto simp: traverse_back_def and_then_def split: if_splits option.splits outcome.splits)

lemma first_fit_state:
  "first_fit s sz = Some (Ok (s1, p)) \<Longrightarrow> \<exists>h. s1 = s\<lparr>tb_ptr := h\<rparr>"
  by (auto simp: first_fit_def and_then_def dest!: traverse_back_state
      split: if_splits option.splits outcome.splits prod.splits)

lemma worst_fit_state:
  "worst_fit s sz = Some (Ok (s1, p)) \<Longrightarrow> \<exists>h. s1 = s\<lparr>tb_ptr := h\<rparr>"
  by (auto simp: worst_fit_def and_then_def dest!: traverse_back_state
      split: if_splits option.splits outcome.splits prod.splits)

lemma best_fit_state:
  "best_fit s sz = Some (Ok (s1, p)) \<Longrightarrow> \<exists>h. s1 = s\<lparr>tb_ptr := h\<rparr>"
  by (auto simp: best_fit_def and_then_def dest!: traverse_back_state
      split: if_splits option.splits outcome.splits prod.splits)

lemma next_fit_state:
  "next_fit s sz = Some (Ok (s1, p)) \<Longrightarrow> \<exists>h. s1 = s\<lparr>tb_ptr := h, last_ptr := p\<rparr>"
  apply (auto simp: next_fit_def and_then_def dest!: first_fit_state
      split: if_splits option.splits outcome.splits prod.splits)
  apply (rule_tac x="tb_ptr s" in exI)
  apply simp
  done

lemma select_hole_state:
  "select_hole s sz = Some (Ok (s1, p)) \<Longrightarrow>
   ledger s1 = ledger s \<and> ledger_top s1 = ledger_top s \<and> pool s1 = pool s \<and>
   pool_size s1 = pool_size s \<and> alloc_algorithm s1 = alloc_algorithm s"
  by (auto simp: select_hole_def split: ALGORITHM.splits
      dest!: first_fit_state next_fit_state best_fit_state worst_fit_state)

lemma find_loop_untracked:
  "walk n L h = Some ks \<Longrightarrow> \<forall>i\<in>set ks. arena (L i) \<noteq> ptr \<Longrightarrow>
   find_loop L ptr h = Some (Ok (- 1))"
proof (induction n arbitrary: h ks)
  case 0
  then show ?case
    by (subst find_loop.simps) (auto simp: walk.simps split: if_splits)
next
  case (Suc n)
  show ?case
  proof (cases "h = - 1")
    case True
    then show ?thesis by (subst find_loop.simps) simp
  next
    case False
    with Suc.prems(1) obtain js where b: "in_bounds h" and w: "walk n L (next_f (L h)) = Some js"
      and ks: "ks = h # js"
      by (subst (asm) walk.simps) (auto split: if_splits)
    from Suc.prems(2) ks have "arena (L h) \<noteq> ptr" "\<forall>i\<in>set js. arena (L i) \<noteq> ptr" by auto
    with Suc.IH[OF w] b False show ?thesis
      by (subst find_loop.simps) simp
  qed
qed

text \<open>A cycle of \<open>previous\<close> links: the loop of \<open>traverse_back\<close> does not end inside it.\<close>

lemma tb_loop_cycle:
  assumes C: "\<forall>p\<in>C. in_bounds p \<and> previous (L p) \<noteq> - 1 \<and> previous (L p) \<in> C"
  shows "tb_loop L p = Some r \<Longrightarrow> p \<notin> C"
proof (rule tb_loop.raw_induct[where P = "\<lambda>L' p r. L' = L \<longrightarrow> p \<notin> C", rule_format, OF _ _ refl])
  show "tb_loop L p = Some r \<Longrightarrow> tb_loop L p = Some r" .
next
  fix f L' q y
  assume IH: "\<And>L' p y. f L' p = Some y \<Longrightarrow> L' = L \<Longrightarrow> p \<notin> C"
    and st: "(if \<not> in_bounds q then Some (Fault q)
      else if previous (L' q) \<noteq> - 1 then f L' (previous (L' q)) else Some (Ok q)) = Some y"
    and eq: "L' = L"
  show "q \<notin> C"
  proof
    assume "q \<in> C"
    with C have "in_bounds q" "previous (L q) \<noteq> - 1" "previous (L q) \<in> C" by auto
    with st eq have "f L (previous (L q)) = Some y" by simp
    from IH[OF this refl] \<open>previous (L q) \<in> C\<close> show False by simp
  qed
qed

text \<open>The state \<open>tb_s15\<close>: the head lookup runs round a cycle of \<open>previous\<close> links.\<close>

lemma tb_s15_lookup: "traverse_back tb_s15 = None"
proof -
  have "\<forall>p\<in>{4, 2, 1}. in_bounds p \<and> previous (ledger tb_s15 p) \<noteq> - 1 \<and>
          previous (ledger tb_s15 p) \<in> {4, 2, 1}"
    by (simp add: tb_s15_def unfold_ops)
  then have "tb_loop (ledger tb_s15) 4 = None"
    using tb_loop_cycle[of "{4, 2, 1}" "ledger tb_s15" 4]
    by (cases "tb_loop (ledger tb_s15) 4") auto
  then show ?thesis
    by (simp add: traverse_back_def tb_s15_def unfold_ops)
qed

section \<open>What an allocation does to an entry in use\<close>

text \<open>
  Let the strategy select the entry \<open>h\<close>, an entry in use whose predecessor (if it has
  one) is in use too, and let the ledger have a free entry left. If the size of \<open>h\<close> equals
  the aligned request, \<open>h\<close> becomes a process block in place, its extent is returned and no
  entry is added. Otherwise the entry \<open>t = ledger_top + 1\<close> is added as a process block of
  the aligned size that starts where \<open>h\<close> started, with \<open>h\<close> as its successor and the old
  predecessor \<open>q\<close> of \<open>h\<close> as its predecessor (and \<open>t\<close> as the successor of \<open>q\<close>); \<open>h\<close>
  keeps its kind, shrinks by the aligned size and starts that much later; the extent of
  \<open>t\<close> is returned.
\<close>

lemma alloc_exact_or_split:
  assumes sel: "select_hole s (ALIGN4 n) = Some (Ok (s1, h))"
    and h: "0 \<le> h" "h \<le> ledger_top s1"
    and q: "previous (ledger s1 h) = - 1 \<or>
            0 \<le> previous (ledger s1 h) \<and> previous (ledger s1 h) \<le> ledger_top s1"
    and room: "ledger_top s1 + 1 < MAX_ALLOCS"
  shows "mavalloc_alloc s n = Some (Ok (
      if size_f (ledger s1 h) = ALIGN4 n
      then (s1\<lparr>ledger := (ledger s1)(h := (ledger s1 h)\<lparr>type_f := P\<rparr>)\<rparr>, arena (ledger s1 h))
      else (let t = ledger_top s1 + 1;
                q = previous (ledger s1 h);
                L = (if q = - 1 then ledger s1 else (ledger s1)(q := (ledger s1 q)\<lparr>next_f := t\<rparr>))
            in (s1\<lparr>ledger_top := t,
                   ledger := L(t := node (ALIGN4 n) P (arena (ledger s1 h)) h q,
                               h := (L h)\<lparr>previous := t,
                                           size_f := size_f (ledger s1 h) - ALIGN4 n,
                                           arena := arena (ledger s1 h) + ALIGN4 n\<rparr>)\<rparr>,
                arena (ledger s1 h)))))"
proof (cases "size_f (ledger s1 h) = ALIGN4 n")
  case True
  with sel h room show ?thesis
    by (simp add: mavalloc_alloc_def and_then_def Let_def in_bounds_def set_type_def)
next
  case False
  define t where "t = ledger_top s1 + 1"
  define q where "q = previous (ledger s1 h)"
  have ht: "h \<noteq> t" "q \<noteq> t" "in_bounds t" "in_bounds h" "q \<noteq> - 1 \<longrightarrow> in_bounds q"
    using h q room by (auto simp: t_def q_def in_bounds_def)
  have sp: "split_hole (ledger s1) h t (ALIGN4 n) =
     Ok ((if q = - 1 then ledger s1 else (ledger s1)(q := (ledger s1 q)\<lparr>next_f := t\<rparr>))
           (t := node (ALIGN4 n) P (arena (ledger s1 h)) h q,
            h := ((if q = - 1 then ledger s1 else (ledger s1)(q := (ledger s1 q)\<lparr>next_f := t\<rparr>)) h)
                   \<lparr>previous := t, size_f := size_f (ledger s1 h) - ALIGN4 n,
                    arena := arena (ledger s1 h) + ALIGN4 n\<rparr>))"
    using ht
    by (auto simp: split_hole_def Let_def q_def[symmetric] set_size_def set_type_def set_previous_def
        set_next_def set_arena_def node_def fun_eq_iff)
  from False sel ht h(1) show ?thesis
    by (simp add: mavalloc_alloc_def and_then_def Let_def sp t_def[symmetric] q_def[symmetric]
        node_def)
qed

text \<open>
  Two instances in the run \<open>nf\<close>: the first allocation splits the hole of the fresh pool,
  the third one fits the remaining hole exactly.
\<close>

lemma alloc_exact_or_split_instance:
  "select_hole nf_s0 (ALIGN4 4) = Some (Ok (nf_s0, 0)) \<and>
   size_f (ledger nf_s0 0) \<noteq> ALIGN4 4 \<and>
   mavalloc_alloc nf_s0 4 = Some (Ok (nf_s1, 4096)) \<and>
   select_hole nf_s2 (ALIGN4 4) = Some (Ok (nf_s2, 0)) \<and>
   size_f (ledger nf_s2 0) = ALIGN4 4 \<and>
   mavalloc_alloc nf_s2 4 = Some (Ok (nf_s3, 4108))"
proof -
  have sel0: "select_hole nf_s0 (ALIGN4 4) = Some (Ok (nf_s0, 0))"
    by (simp add: nf_s0_def aligned unfold_ops loop_steps)
  have sel2: "select_hole nf_s2 (ALIGN4 4) = Some (Ok (nf_s2, 0))"
    by (simp add: nf_s2_def aligned unfold_ops loop_steps)
  have "mavalloc_alloc nf_s0 4 = Some (Ok (nf_s1, 4096))"
    using alloc_exact_or_split[OF sel0]
    by (simp add: nf_s0_def nf_s1_def aligned MAX_ALLOCS_def fresh_def node_def Let_def fun_eq_iff)
  moreover have "mavalloc_alloc nf_s2 4 = Some (Ok (nf_s3, 4108))"
    using alloc_exact_or_split[OF sel2]
    by (simp add: nf_s2_def nf_s3_def aligned MAX_ALLOCS_def fresh_def node_def Let_def fun_eq_iff)
  moreover have "size_f (ledger nf_s0 0) \<noteq> ALIGN4 4" "size_f (ledger nf_s2 0) = ALIGN4 4"
    by (simp_all add: nf_s0_def nf_s2_def aligned fresh_def node_def)
  ultimately show ?thesis
    using sel0 sel2 by simp
qed


section \<open>Freeing a handle when the list is intact\<close>

text \<open>
  \<open>mavalloc_free\<close> of the null handle returns at once and changes nothing. For a
  handle that is not the start of any block of the list (the list that starts at the index
  which \<open>traverse_back\<close> returns and ends at -1), it returns normally as well, and the ledger,
  \<open>ledger_top\<close> and the pool are as before.
\<close>

lemma free_null_or_untracked:
  assumes "ptr = NULL \<or>
           (\<exists>s1 h ks. traverse_back s = Some (Ok (s1, h)) \<and> live_list s1 h = Some ks \<and>
                       (\<forall>i\<in>set ks. arena (ledger s1 i) \<noteq> ptr))"
  shows "\<exists>s2. mavalloc_free s ptr = Some (Ok s2) \<and> (ptr = NULL \<longrightarrow> s2 = s) \<and>
              ledger s2 = ledger s \<and> ledger_top s2 = ledger_top s \<and> pool s2 = pool s \<and>
              pool_size s2 = pool_size s"
proof (cases "ptr = NULL")
  case True
  then show ?thesis by (simp add: mavalloc_free_def)
next
  case False
  with assms obtain s1 h ks where tb: "traverse_back s = Some (Ok (s1, h))"
    and "live_list s1 h = Some ks" "\<forall>i\<in>set ks. arena (ledger s1 i) \<noteq> ptr"
    by auto
  then have "find_loop (ledger s1) ptr h = Some (Ok (- 1))"
    unfolding live_list_def by (intro find_loop_untracked)
  with False tb traverse_back_state[OF tb] show ?thesis
    by (simp add: mavalloc_free_def and_then_def)
qed

text \<open>
  Two instances in the state \<open>nf_s3\<close>, whose blocks start at 4096, 4100 and 4108: the null
  handle, and the address 4098 inside the first block.
\<close>

lemma free_null_or_untracked_instance:
  "traverse_back nf_s3 = Some (Ok (nf_s3\<lparr>tb_ptr := 1\<rparr>, 1)) \<and>
   live_list (nf_s3\<lparr>tb_ptr := 1\<rparr>) 1 = Some [1, 2, 0] \<and>
   arena (ledger (nf_s3\<lparr>tb_ptr := 1\<rparr>) 1) = 4096 \<and>
   arena (ledger (nf_s3\<lparr>tb_ptr := 1\<rparr>) 2) = 4100 \<and>
   arena (ledger (nf_s3\<lparr>tb_ptr := 1\<rparr>) 0) = 4108 \<and>
   (\<exists>s2. mavalloc_free nf_s3 4098 = Some (Ok s2) \<and> ledger s2 = ledger nf_s3) \<and>
   mavalloc_free nf_s3 NULL = Some (Ok nf_s3)"
proof -
  have tb: "traverse_back nf_s3 = Some (Ok (nf_s3\<lparr>tb_ptr := 1\<rparr>, 1))"
    by (simp add: nf_s3_def unfold_ops loop_steps)
  have ll: "live_list (nf_s3\<lparr>tb_ptr := 1\<rparr>) 1 = Some [1, 2, 0]"
    by (simp add: nf_s3_def unfold_props)
  have ar: "\<forall>i\<in>set [1, 2, 0]. arena (ledger (nf_s3\<lparr>tb_ptr := 1\<rparr>) i) \<noteq> 4098"
    by (simp add: nf_s3_def fresh_def node_def)
  have "\<exists>s2. mavalloc_free nf_s3 4098 = Some (Ok s2) \<and> ledger s2 = ledger nf_s3"
    using free_null_or_untracked[of 4098 nf_s3] tb ll ar by blast
  moreover have "mavalloc_free nf_s3 NULL = Some (Ok nf_s3)"
    using free_null_or_untracked[of NULL nf_s3] by auto
  moreover have "arena (ledger (nf_s3\<lparr>tb_ptr := 1\<rparr>) 1) = 4096"
    "arena (ledger (nf_s3\<lparr>tb_ptr := 1\<rparr>) 2) = 4100"
    "arena (ledger (nf_s3\<lparr>tb_ptr := 1\<rparr>) 0) = 4108"
    by (simp_all add: nf_s3_def fresh_def node_def)
  ultimately show ?thesis
    using tb ll by simp
qed


section \<open>The claims\<close>

subsection \<open>Invariants of the ledger\<close>

text \<open>
  C1. In every state reached by calls of init, allocate and free after a successful init, the
  extents of the live blocks, in list order, are pairwise disjoint and cover exactly the
  pool. The code does not keep this: \<open>next_fit\<close> starts its search at the index it returned
  last, and nothing resets that index when the entry is merged away by \<open>mavalloc_free\<close>.
  In the run below no subscript leaves the array; the last call takes the stale entry 1 for a
  hole, splits it and links the pieces into the list. The list then holds a hole of 12 bytes
  at offset 0 followed by a block at offset 4, and the sizes add up to 24 in a pool of 16.
\<close>

theorem next_fit_breaks_partition:
  "run boot [Init 16 NEXT_FIT 4096, Alloc 4, Alloc 8, Alloc 4, Free 4096, Free 4100, Alloc 4,
             Free 4096, Alloc 4] = Some (Ok nf_s8) \<and>
   partition_inv nf_s7 \<and>
   blocks nf_s8 = Some [(0, 12, H), (4, 4, P), (8, 4, H), (12, 4, P)] \<and>
   \<not> partition_inv nf_s8"
proof -
  have "run boot [Init 16 NEXT_FIT 4096, Alloc 4, Alloc 8, Alloc 4, Free 4096, Free 4100, Alloc 4,
             Free 4096, Alloc 4] = Some (Ok nf_s8)"
    by (simp add: and_then_def nf_init nf_step1 nf_step2 nf_step3 nf_step4 nf_step5 nf_step6
        nf_step7 nf_step8)
  moreover have "partition_inv nf_s7"
    by (simp add: nf_s7_def unfold_props)
  moreover have "blocks nf_s8 = Some [(0, 12, H), (4, 4, P), (8, 4, H), (12, 4, P)]"
    by (simp add: nf_s8_def unfold_props)
  moreover have "\<not> partition_inv nf_s8"
    by (simp add: nf_s8_def unfold_props)
  ultimately show ?thesis by simp
qed

text \<open>
  C2. In every reachable state no two neighbours in the live list are both holes. The run
  of C1, continued by freeing the block at offset 12, ends in a list of two entries that are
  both holes: the entry that is freed still has the \<open>previous\<close> link that the stale split
  left inconsistent, so the backward step merges it into the wrong entry and the forward
  step never looks at it again.
\<close>

theorem next_fit_leaves_adjacent_holes:
  "run boot [Init 16 NEXT_FIT 4096, Alloc 4, Alloc 8, Alloc 4, Free 4096, Free 4100, Alloc 4,
             Free 4096, Alloc 4, Free 4108] = Some (Ok nf_s9) \<and>
   blocks nf_s9 = Some [(0, 20, H), (12, 4, H)] \<and>
   \<not> no_adjacent_holes nf_s9"
proof -
  have "run boot [Init 16 NEXT_FIT 4096, Alloc 4, Alloc 8, Alloc 4, Free 4096, Free 4100, Alloc 4,
             Free 4096, Alloc 4, Free 4108] = Some (Ok nf_s9)"
    by (simp add: and_then_def nf_init nf_step1 nf_step2 nf_step3 nf_step4 nf_step5 nf_step6
        nf_step7 nf_step8 nf_step9)
  moreover have "blocks nf_s9 = Some [(0, 20, H), (12, 4, H)]"
    by (simp add: nf_s9_def unfold_props)
  moreover have "\<not> no_adjacent_holes nf_s9"
    by (simp add: nf_s9_def unfold_props)
  ultimately show ?thesis by simp
qed

subsection \<open>Head lookup\<close>

text \<open>
  C3. In every reachable state \<open>traverse_back\<close> returns the index of the head of the live
  list. After the run below (next-fit, requests of 4 and 8 bytes, no subscript outside the
  array) the \<open>previous\<close> links of the entries 4, 2 and 1 form a cycle that contains the
  head, so the loop of \<open>traverse_back\<close> never ends and no index is returned. The ledger was
  damaged before by the stale index of \<open>next_fit\<close>, as in C1.
\<close>

theorem traverse_back_never_returns:
  "run boot [Init 24 NEXT_FIT 4096, Alloc 4, Alloc 4, Alloc 8, Alloc 4, Free 4104, Alloc 8,
             Free 4100, Free 4104, Alloc 4, Alloc 4, Free 4096, Free 4104, Free 4112, Alloc 8,
             Free 4108] = Some (Ok tb_s15) \<and>
   traverse_back tb_s15 = None"
proof -
  have "run boot [Init 24 NEXT_FIT 4096, Alloc 4, Alloc 4, Alloc 8, Alloc 4, Free 4104, Alloc 8,
             Free 4100, Free 4104, Alloc 4, Alloc 4, Free 4096, Free 4104, Free 4112, Alloc 8,
             Free 4108] = Some (Ok tb_s15)"
    by (simp add: and_then_def tb_init tb_step1 tb_step2 tb_step3 tb_step4 tb_step5 tb_step6
        tb_step7 tb_step8 tb_step9 tb_step10 tb_step11 tb_step12 tb_step13 tb_step14 tb_step15)
  moreover have "traverse_back tb_s15 = None"
    by (rule tb_s15_lookup)
  ultimately show ?thesis by simp
qed

subsection \<open>Subscripts in the coalescing steps\<close>

text \<open>
  C4. Every subscript used by the coalescing steps of \<open>mavalloc_free\<close> lies in the array,
  also when the merged block becomes the tail. After one allocation from a fresh pool the
  list is a block followed by the tail hole. Freeing the block merges the hole into it, the
  merged entry's \<open>next\<close> link becomes -1, and the following statement
  \<open>ledger[ledger[i].next].previous = i\<close> subscripts the ledger with that -1.
\<close>

theorem free_subscripts_minus_one:
  "run boot [Init 8 FIRST_FIT 4096, Alloc 4] = Some (Ok ff_s1) \<and>
   blocks ff_s1 = Some [(0, 4, P), (4, 4, H)] \<and>
   mavalloc_free ff_s1 4096 = Some (Fault (- 1))"
proof -
  have "run boot [Init 8 FIRST_FIT 4096, Alloc 4] = Some (Ok ff_s1)"
    by (simp add: and_then_def ff_init ff_step1)
  moreover have "blocks ff_s1 = Some [(0, 4, P), (4, 4, H)]"
    by (simp add: ff_s1_def unfold_props)
  moreover have "mavalloc_free ff_s1 4096 = Some (Fault (- 1))"
    by (simp add: ff_s1_def aligned unfold_ops loop_steps)
  ultimately show ?thesis by simp
qed

subsection \<open>Initialisation\<close>

text \<open>
  C5. \<open>mavalloc_init\<close> returns -1 for a negative capacity and reserves no pool. The
  parameter is a \<open>size_t\<close>: the argument -1 arrives as \<open>2 ^ 64 - 1\<close>, the test
  \<open>size < 0\<close> is never true, the aligned size wraps to 0, and when \<open>malloc\<close> returns a
  pointer for it the function stores the pool and returns 0.
\<close>

theorem init_accepts_minus_one:
  "mavalloc_init (- 1) FIRST_FIT 4096 boot =
     (\<lparr>pool = 4096, pool_size = 0, alloc_algorithm = FIRST_FIT, ledger_top = 0,
       ledger = fresh 4096 0, tb_ptr = 0, last_ptr = 0\<rparr>, 0)"
  by (simp add: init_boot NULL_def aligned)

subsection \<open>Allocate, then free\<close>

text \<open>
  C6. If \<open>mavalloc_alloc\<close> succeeds with a handle, \<open>mavalloc_free\<close> of that handle right
  afterwards restores the partition that was there before the allocation. In the state
  \<open>nf_s7\<close> of the run of C1 the partition is a hole of 12 bytes and a block of 4. The next
  allocation of 4 bytes succeeds with the handle 4100 (taken from the stale entry), and
  freeing 4100 leaves a hole of 20 bytes at offset 0 in front of the block at offset 12.
  (With the other strategies the pair also fails whenever the hole that was split is the
  tail of the list: the free then stops at the subscript -1 of C4.)
\<close>

theorem alloc_then_free_not_restored:
  "run boot [Init 16 NEXT_FIT 4096, Alloc 4, Alloc 8, Alloc 4, Free 4096, Free 4100, Alloc 4,
             Free 4096] = Some (Ok nf_s7) \<and>
   mavalloc_alloc nf_s7 4 = Some (Ok (nf_s8, 4100)) \<and>
   mavalloc_free nf_s8 4100 = Some (Ok nf_r9) \<and>
   blocks nf_s7 = Some [(0, 12, H), (12, 4, P)] \<and>
   blocks nf_r9 = Some [(0, 20, H), (12, 4, P)]"
proof -
  have "run boot [Init 16 NEXT_FIT 4096, Alloc 4, Alloc 8, Alloc 4, Free 4096, Free 4100, Alloc 4,
             Free 4096] = Some (Ok nf_s7)"
    by (simp add: and_then_def nf_init nf_step1 nf_step2 nf_step3 nf_step4 nf_step5 nf_step6
        nf_step7)
  moreover have "blocks nf_s7 = Some [(0, 12, H), (12, 4, P)]"
    by (simp add: nf_s7_def unfold_props)
  moreover have "blocks nf_r9 = Some [(0, 20, H), (12, 4, P)]"
    by (simp add: nf_r9_def unfold_props)
  ultimately show ?thesis
    by (simp add: nf_step8 nf_back9)
qed

subsection \<open>Best fit and worst fit\<close>

text \<open>
  C7. \<open>best_fit\<close> returns the smallest hole that is large enough and -1 only when there is
  none. The running minimum is an \<open>int\<close> that starts at \<open>INT_MAX\<close>, and a hole is taken
  only if its size is less than it: a hole of \<open>2 ^ 31\<close> bytes or more is never chosen.
  In a fresh pool of \<open>2 ^ 31\<close> bytes the only entry is a hole of that size; a request of
  4 bytes finds nothing, and \<open>mavalloc_alloc\<close> returns \<open>NULL\<close>.
\<close>

theorem best_fit_misses_large_hole:
  "mavalloc_init 2147483648 BEST_FIT 4096 boot = (bf_s0, 0) \<and>
   blocks bf_s0 = Some [(0, 2147483648, H)] \<and>
   best_fit bf_s0 4 = Some (Ok (bf_s0, - 1)) \<and>
   mavalloc_alloc bf_s0 4 = Some (Ok (bf_s0, NULL))"
proof -
  have "blocks bf_s0 = Some [(0, 2147483648, H)]"
    by (simp add: bf_s0_def unfold_props)
  moreover have "best_fit bf_s0 4 = Some (Ok (bf_s0, - 1))"
    by (simp add: bf_s0_def aligned unfold_ops loop_steps INT_MAX_def)
  moreover have "mavalloc_alloc bf_s0 4 = Some (Ok (bf_s0, NULL))"
    by (simp add: bf_s0_def aligned unfold_ops loop_steps INT_MAX_def)
  ultimately show ?thesis
    by (simp add: bf_init)
qed

subsection \<open>What an allocation does to the selected hole\<close>

text \<open>
  C8. When \<open>mavalloc_alloc\<close> selects a hole \<open>h\<close> whose size is not the aligned request,
  it creates one new process record immediately before \<open>h\<close>, which takes the low addresses,
  and \<open>h\<close> keeps the remainder, smaller by the aligned request. In the state \<open>sp_s7\<close>,
  reached by eight calls with next-fit, the list is a hole of 12 bytes followed by a block of
  12 bytes and \<open>ledger_top\<close> is 1. \<open>next_fit\<close> selects its cached index 2, an entry that
  was merged out of the list and still reads as a hole of 8 bytes at 4100. That index is
  also \<open>ledger_top + 1\<close>, the entry the split writes the new record to: after the call
  there is no second record, entry 2 is a process block of size 0 whose \<open>next\<close> and
  \<open>previous\<close> links both point to itself, and the handle returned is 4104, the high end
  of the stale extent instead of its low end. The defect is the stale index of \<open>next_fit\<close>,
  as in C1.
\<close>

theorem alloc_splits_stale_entry:
  "run boot [Init 24 NEXT_FIT 4096, Alloc 4, Alloc 8, Alloc 12, Free 4100, Alloc 8, Free 4096,
             Free 4100] = Some (Ok sp_s7) \<and>
   blocks sp_s7 = Some [(0, 12, H), (12, 12, P)] \<and>
   partition_inv sp_s7 \<and>
   ledger_top sp_s7 = 1 \<and>
   ledger sp_s7 2 = node 8 H 4100 0 1 \<and>
   select_hole sp_s7 (ALIGN4 4) = Some (Ok (sp_s7, 2)) \<and>
   mavalloc_alloc sp_s7 4 = Some (Ok (sp_s8, 4104)) \<and>
   ledger_top sp_s8 = 2 \<and>
   ledger sp_s8 2 = node 0 P 4104 2 2 \<and>
   ledger sp_s8 1 = node 12 H 4096 2 (- 1)"
proof -
  have "run boot [Init 24 NEXT_FIT 4096, Alloc 4, Alloc 8, Alloc 12, Free 4100, Alloc 8, Free 4096,
             Free 4100] = Some (Ok sp_s7)"
    by (simp add: and_then_def sp_init sp_step1 sp_step2 sp_step3 sp_step4 sp_step5 sp_step6
        sp_step7)
  moreover have "blocks sp_s7 = Some [(0, 12, H), (12, 12, P)]"
    by (simp add: sp_s7_def unfold_props)
  moreover have "partition_inv sp_s7"
    by (simp add: sp_s7_def unfold_props)
  moreover have "select_hole sp_s7 (ALIGN4 4) = Some (Ok (sp_s7, 2))"
    by (simp add: sp_s7_def aligned unfold_ops loop_steps)
  moreover have "ledger_top sp_s7 = 1" "ledger sp_s7 2 = node 8 H 4100 0 1"
    by (simp_all add: sp_s7_def)
  moreover have "ledger_top sp_s8 = 2" "ledger sp_s8 2 = node 0 P 4104 2 2"
    "ledger sp_s8 1 = node 12 H 4096 2 (- 1)"
    by (simp_all add: sp_s8_def)
  ultimately show ?thesis
    by (simp add: sp_step8)
qed

subsection \<open>Failed allocation\<close>

text \<open>
  C9. If the configured strategy finds no hole (it returns -1), \<open>mavalloc_alloc\<close> returns
  \<open>NULL\<close> and the ledger is as it was: no entry, and neither \<open>ledger_top\<close> nor the pool,
  has changed. (The search may have moved the two cached indices, which are not part of the
  ledger.)
\<close>

theorem alloc_failure_leaves_ledger:
  assumes "select_hole s (ALIGN4 n) = Some (Ok (s1, - 1))"
  shows "mavalloc_alloc s n = Some (Ok (s1, NULL)) \<and> ledger s1 = ledger s \<and>
         ledger_top s1 = ledger_top s \<and> pool s1 = pool s \<and> pool_size s1 = pool_size s"
  using assms select_hole_state[OF assms]
  by (simp add: mavalloc_alloc_def and_then_def Let_def)

text \<open>An instance: in \<open>nf_s3\<close> the three blocks of the pool are all allocated.\<close>

theorem alloc_failure_leaves_ledger_witness:
  "select_hole nf_s3 (ALIGN4 4) = Some (Ok (nf_s3\<lparr>tb_ptr := 1, last_ptr := - 1\<rparr>, - 1)) \<and>
   blocks nf_s3 = Some [(0, 4, P), (4, 8, P), (12, 4, P)] \<and>
   mavalloc_alloc nf_s3 4 = Some (Ok (nf_s3\<lparr>tb_ptr := 1, last_ptr := - 1\<rparr>, NULL)) \<and>
   ledger (nf_s3\<lparr>tb_ptr := 1, last_ptr := - 1\<rparr>) = ledger nf_s3"
proof -
  have sel: "select_hole nf_s3 (ALIGN4 4) = Some (Ok (nf_s3\<lparr>tb_ptr := 1, last_ptr := - 1\<rparr>, - 1))"
    by (simp add: nf_s3_def aligned unfold_ops loop_steps)
  moreover have "blocks nf_s3 = Some [(0, 4, P), (4, 8, P), (12, 4, P)]"
    by (simp add: nf_s3_def unfold_props)
  ultimately show ?thesis
    using alloc_failure_leaves_ledger[OF sel] by simp
qed

subsection \<open>Freeing a null or unknown handle\<close>

text \<open>
  C10. \<open>mavalloc_free\<close> of the null handle, or of a handle that is not the start of any
  tracked block, returns normally and leaves the ledger unchanged. For the null handle this
  holds in every state (lemma \<open>free_null_or_untracked\<close>). For another handle the function
  first looks up the head: in the state \<open>tb_s15\<close> of C3, reached by fifteen calls with
  next-fit, no entry of the ledger starts at the address 5000 (the pool is the range from
  4096 to 4120), and \<open>mavalloc_free\<close> of 5000 never returns, because \<open>traverse_back\<close>
  runs round the cycle of \<open>previous\<close> links.
\<close>

theorem free_unknown_handle_never_returns:
  "run boot [Init 24 NEXT_FIT 4096, Alloc 4, Alloc 4, Alloc 8, Alloc 4, Free 4104, Alloc 8,
             Free 4100, Free 4104, Alloc 4, Alloc 4, Free 4096, Free 4104, Free 4112, Alloc 8,
             Free 4108] = Some (Ok tb_s15) \<and>
   pool tb_s15 = 4096 \<and> pool_size tb_s15 = 24 \<and>
   mavalloc_free tb_s15 5000 = None"
proof -
  have "run boot [Init 24 NEXT_FIT 4096, Alloc 4, Alloc 4, Alloc 8, Alloc 4, Free 4104, Alloc 8,
             Free 4100, Free 4104, Alloc 4, Alloc 4, Free 4096, Free 4104, Free 4112, Alloc 8,
             Free 4108] = Some (Ok tb_s15)"
    by (simp add: and_then_def tb_init tb_step1 tb_step2 tb_step3 tb_step4 tb_step5 tb_step6
        tb_step7 tb_step8 tb_step9 tb_step10 tb_step11 tb_step12 tb_step13 tb_step14 tb_step15)
  moreover have "mavalloc_free tb_s15 5000 = None"
    by (simp add: mavalloc_free_def tb_s15_lookup and_then_def NULL_def)
  moreover have "pool tb_s15 = 4096" "pool_size tb_s15 = 24"
    by (simp_all add: tb_s15_def)
  ultimately show ?thesis by simp
qed

end
